theory Spec2Isabelle
  imports Complex_Main
begin

section \<open>Food inference and recommendation service (app.py)\<close>

text \<open>
  A shallow embedding of \<^verbatim>\<open>src/app/app.py\<close>. Python floats are modelled as
  \<^typ>\<open>real\<close> (exact arithmetic, no rounding, no NaN), Python strings as
  \<^typ>\<open>string\<close> restricted to ASCII, exceptions as the left summand of a sum type,
  the module globals (\<^verbatim>\<open>cnn_model\<close>, \<^verbatim>\<open>knn_model\<close>, \<^verbatim>\<open>dataset\<close>), the files
  of the working directory and the standard output as one explicit state record.
\<close>

subsection \<open>Errors\<close>

text \<open>
  The exception classes that the modelled paths of the source can raise. The last two
  constructors are the kinds of the documented taxonomy that the claims name; no path of
  the source raises them.
\<close>

datatype error =
    AttributeError
  | TypeError
  | IndexError
  | KeyError
  | ValueError
  | FileNotFoundError
  | UnidentifiedImageError
  | CatalogMismatchError
  | InsufficientDataError

subsection \<open>Calculator\<close>

text \<open>\<^verbatim>\<open>hitung_kebutuhan_makronutrien(tdee)\<close>, lines 38-48.\<close>

definition hitung_kebutuhan_makronutrien :: "real \<Rightarrow> real \<times> real \<times> real" where
  "hitung_kebutuhan_makronutrien tdee =
     (let kalori_karbohidrat = tdee * 0.55;
          kalori_protein = tdee * 0.20;
          kalori_lemak = tdee * 0.25;
          gram_karbohidrat = kalori_karbohidrat / 4;
          gram_protein = kalori_protein / 4;
          gram_lemak = kalori_lemak / 9
      in (gram_karbohidrat, gram_protein, gram_lemak))"

subsection \<open>Data\<close>

text \<open>
  One entry of \<^verbatim>\<open>dataset.json\<close>: a dictionary with the keys
  \<^verbatim>\<open>"Nama Makanan/Minuman"\<close>, \<^verbatim>\<open>"Kalori (kcal)"\<close>, \<^verbatim>\<open>"Karbohidrat (g)"\<close>,
  \<^verbatim>\<open>"Protein (g)"\<close> and \<^verbatim>\<open>"Lemak (g)"\<close>. The record type takes every entry to
  have the five keys with numeric values, so the \<^verbatim>\<open>KeyError\<close> of a malformed entry is
  outside the model.
\<close>

record food =
  Nama_Makanan_Minuman :: string
  Kalori_kcal :: real
  Karbohidrat_g :: real
  Protein_g :: real
  Lemak_g :: real

text \<open>The dictionary under the key \<^verbatim>\<open>"nutrition"\<close> of a response.\<close>

record nutrition =
  kalori :: real
  karbohidrat :: real
  protein :: real
  lemak :: real

text \<open>One element of the list built by \<^verbatim>\<open>get_food_recommendations\<close>.\<close>

record recommendation =
  nama :: string
  nutrition :: nutrition
  similarity_score :: real

text \<open>
  A feature vector is the three-element list \<^verbatim>\<open>[karbohidrat, protein, lemak]\<close> that
  every caller builds; a row of \<^verbatim>\<open>df[[...]].values\<close> has the same shape.
\<close>

type_synonym feature_vector = "real \<times> real \<times> real"

definition features :: "food \<Rightarrow> feature_vector" where
  "features f = (Karbohidrat_g f, Protein_g f, Lemak_g f)"

subsection \<open>The nearest-neighbour library\<close>

text \<open>
  \<^verbatim>\<open>sklearn.neighbors.NearestNeighbors\<close> is not code of the repository. The model
  below is the library's contract for \<^verbatim>\<open>metric='euclidean'\<close>: \<^verbatim>\<open>fit\<close> stores the
  rows; \<^verbatim>\<open>kneighbors\<close> raises \<^verbatim>\<open>ValueError\<close> when \<^verbatim>\<open>n_neighbors\<close> is zero or
  exceeds the number of fitted rows, and otherwise returns, position by position, the
  distances and the row numbers of the \<^verbatim>\<open>n_neighbors\<close> nearest rows, nearest first.
  As the library does, rows are ranked by the squared distance and the root is taken of
  the selected ones. The library fixes no order among rows at the same distance, and
  runs of it return such rows in either order of their numbers. The model therefore
  takes that order as the parameter \<open>tie\<close>: among rows at the same distance from the
  query \<open>q\<close>, the one of smaller \<open>tie q\<close> comes first. Every order of the ties is the
  order of some \<open>tie\<close>.
\<close>

record knn =
  n_neighbors :: nat
  fit_X :: "feature_vector list"

definition rdist :: "feature_vector \<Rightarrow> feature_vector \<Rightarrow> real" where
  "rdist a b =
     (case a of (a1, a2, a3) \<Rightarrow> case b of (b1, b2, b3) \<Rightarrow>
        (a1 - b1)\<^sup>2 + (a2 - b2)\<^sup>2 + (a3 - b3)\<^sup>2)"

definition euclidean :: "feature_vector \<Rightarrow> feature_vector \<Rightarrow> real" where
  "euclidean a b = sqrt (rdist a b)"

definition kneighbors ::
  "(feature_vector \<Rightarrow> nat \<Rightarrow> nat) \<Rightarrow> knn \<Rightarrow> feature_vector \<Rightarrow> error + (real list \<times> nat list)"
where
  "kneighbors tie m q =
     (let n = length (fit_X m) in
      if n_neighbors m = 0 \<or> n < n_neighbors m then Inl ValueError
      else
        let indices = take (n_neighbors m)
              (sort_key (\<lambda>i. rdist (fit_X m ! i) q) (sort_key (tie q) [0..<n]))
        in Inr (map (\<lambda>i. euclidean (fit_X m ! i) q) indices, indices))"

subsection \<open>Process state\<close>

text \<open>
  A decoded image is a list of pixel intensities. What is stored under a path is seen
  through \<^verbatim>\<open>Image.open\<close>: either the image it decodes to, or bytes that it rejects.
\<close>

type_synonym image = "nat list"

datatype file_content = Not_An_Image | Image image

text \<open>A line printed to the standard output.\<close>

datatype log_line = Info string | Error_In string error

text \<open>
  The globals of the module, \<^verbatim>\<open>None\<close> until \<^verbatim>\<open>load_models\<close> has run, the files of
  the working directory and the standard output. The field \<open>tie_rank\<close> is no global of
  the module: it is what the nearest-neighbour library leaves open, the rank it gives the
  fitted rows for a query, which decides between rows at the same distance. No function
  of the source writes it. The field \<open>cnn_model\<close> is the loaded
  network together with the preprocessing of lines 94-96 (resize, scaling by 255, batch
  dimension): a function from the decoded image to the single row of
  \<^verbatim>\<open>cnn_model.predict\<close>, or to the exception that either raises.
\<close>

record state =
  cnn_model :: "(image \<Rightarrow> error + real list) option"
  knn_model :: "knn option"
  dataset :: "food list option"
  files :: "string \<rightharpoonup> file_content"
  stdout :: "log_line list"
  tie_rank :: "feature_vector \<Rightarrow> nat \<Rightarrow> nat"

subsection \<open>Building the index\<close>

text \<open>
  \<^verbatim>\<open>create_knn_model(df)\<close>, lines 50-55, with \<^verbatim>\<open>df = pd.DataFrame(dataset)\<close>. The
  frame of an empty list has no columns, so selecting the three columns raises
  \<^verbatim>\<open>KeyError\<close>; otherwise the three columns are fitted with \<^verbatim>\<open>n_neighbors=5\<close>. The
  source makes no check of the number of rows against 5.
\<close>

definition create_knn_model :: "food list \<Rightarrow> error + knn" where
  "create_knn_model df =
     (if df = [] then Inl KeyError
      else Inr \<lparr>n_neighbors = 5, fit_X = map features df\<rparr>)"

text \<open>
  \<^verbatim>\<open>load_models()\<close>, lines 57-88. The two arguments are what the environment holds:
  the result of loading \<^verbatim>\<open>v1.h5\<close> and the result of parsing \<^verbatim>\<open>dataset.json\<close>.
  The assignments to the globals made before an exception stay.
\<close>

definition load_models ::
  "(error + (image \<Rightarrow> error + real list)) \<Rightarrow> (error + food list) \<Rightarrow> state \<Rightarrow> (error + unit) \<times> state"
where
  "load_models v1_h5 dataset_json st =
     (case v1_h5 of
        Inl e \<Rightarrow> (Inl e, st\<lparr>stdout := stdout st @ [Error_In ''loading CNN model'' e]\<rparr>)
      | Inr cnn \<Rightarrow>
          let st1 = st\<lparr>cnn_model := Some cnn,
                       stdout := stdout st @ [Info ''CNN model loaded successfully'']\<rparr>
          in (case dataset_json of
                Inl e \<Rightarrow>
                  (Inl e, st1\<lparr>stdout := stdout st1 @
                     [Error_In ''loading dataset or creating KNN model'' e]\<rparr>)
              | Inr ds \<Rightarrow>
                  let st2 = st1\<lparr>dataset := Some ds,
                                stdout := stdout st1 @ [Info ''Dataset loaded successfully'']\<rparr>
                  in (case create_knn_model ds of
                        Inl e \<Rightarrow>
                          (Inl e, st2\<lparr>stdout := stdout st2 @
                             [Error_In ''loading dataset or creating KNN model'' e]\<rparr>)
                      | Inr m \<Rightarrow>
                          (Inr (), st2\<lparr>knn_model := Some m,
                                       stdout := stdout st2 @
                                         [Info ''KNN model created successfully'']\<rparr>))))"

subsection \<open>Recommendations\<close>

definition nutrition_of :: "food \<Rightarrow> nutrition" where
  "nutrition_of f =
     \<lparr>kalori = Kalori_kcal f, karbohidrat = Karbohidrat_g f,
      protein = Protein_g f, lemak = Lemak_g f\<rparr>"

text \<open>
  The loop of lines 120-133. The list \<open>recommendations\<close> grows by one element per
  iteration, and the distance is read at the position \<^verbatim>\<open>len(recommendations)\<close>.
  \<^verbatim>\<open>dataset[idx]\<close> raises \<^verbatim>\<open>TypeError\<close> when the global is \<^verbatim>\<open>None\<close> and
  \<^verbatim>\<open>IndexError\<close> out of range, as does the read of the distance. The division is one
  of numpy floats and raises nothing.
\<close>

fun recommend_loop ::
  "food list option \<Rightarrow> real list \<Rightarrow> nat list \<Rightarrow> recommendation list \<Rightarrow> error + recommendation list"
where
  "recommend_loop ds distances [] recommendations = Inr recommendations"
| "recommend_loop ds distances (idx # rest) recommendations =
     (case ds of
        None \<Rightarrow> Inl TypeError
      | Some d \<Rightarrow>
          if length d \<le> idx then Inl IndexError
          else
            let food = d ! idx in
            if length distances \<le> length recommendations then Inl IndexError
            else recommend_loop ds distances rest
                   (recommendations @
                      [\<lparr>nama = Nama_Makanan_Minuman food,
                        nutrition = nutrition_of food,
                        similarity_score = 1 / (1 + distances ! length recommendations)\<rparr>]))"

text \<open>The body of the \<^verbatim>\<open>try\<close> of \<^verbatim>\<open>get_food_recommendations\<close>, lines 117-133.\<close>

definition get_food_recommendations_body :: "state \<Rightarrow> feature_vector \<Rightarrow> error + recommendation list" where
  "get_food_recommendations_body st food_features =
     (case knn_model st of
        None \<Rightarrow> Inl AttributeError
      | Some m \<Rightarrow>
          (case kneighbors (tie_rank st) m food_features of
             Inl e \<Rightarrow> Inl e
           | Inr (distances, indices) \<Rightarrow> recommend_loop (dataset st) distances indices []))"

text \<open>
  \<^verbatim>\<open>get_food_recommendations(food_features)\<close>, lines 114-136: an exception is
  printed and raised again.
\<close>

definition get_food_recommendations ::
  "state \<Rightarrow> feature_vector \<Rightarrow> (error + recommendation list) \<times> state"
where
  "get_food_recommendations st food_features =
     (case get_food_recommendations_body st food_features of
        Inl e \<Rightarrow> (Inl e, st\<lparr>stdout := stdout st @ [Error_In ''get_food_recommendations'' e]\<rparr>)
      | Inr recommendations \<Rightarrow> (Inr recommendations, st))"

subsection \<open>Classification\<close>

text \<open>\<^verbatim>\<open>np.max\<close> and \<^verbatim>\<open>np.argmax\<close> (the first position of the maximum) on a non-empty row.\<close>

definition np_max :: "real list \<Rightarrow> real" where
  "np_max xs = fold max (tl xs) (hd xs)"

definition np_argmax :: "real list \<Rightarrow> nat" where
  "np_argmax xs = length (takeWhile (\<lambda>x. x \<noteq> np_max xs) xs)"

text \<open>
  The body of the \<^verbatim>\<open>try\<close> of \<^verbatim>\<open>predict_food\<close>, lines 93-109. \<^verbatim>\<open>Image.open\<close>
  raises on a missing file and on bytes that are no image; \<^verbatim>\<open>dataset[predicted_class]\<close>
  is a read of a Python list at a non-negative position and raises \<^verbatim>\<open>IndexError\<close>
  out of range.
\<close>

definition predict_food_body :: "state \<Rightarrow> string \<Rightarrow> error + (string \<times> nutrition \<times> real)" where
  "predict_food_body st image_path =
     (case files st image_path of
        None \<Rightarrow> Inl FileNotFoundError
      | Some Not_An_Image \<Rightarrow> Inl UnidentifiedImageError
      | Some (Image img) \<Rightarrow>
          (case cnn_model st of
             None \<Rightarrow> Inl AttributeError
           | Some cnn \<Rightarrow>
               (case cnn img of
                  Inl e \<Rightarrow> Inl e
                | Inr prediction \<Rightarrow>
                    if prediction = [] then Inl ValueError
                    else
                      let predicted_class = np_argmax prediction;
                          confidence = np_max prediction
                      in (case dataset st of
                            None \<Rightarrow> Inl TypeError
                          | Some ds \<Rightarrow>
                              if length ds \<le> predicted_class then Inl IndexError
                              else Inr (Nama_Makanan_Minuman (ds ! predicted_class),
                                        nutrition_of (ds ! predicted_class),
                                        confidence)))))"

text \<open>\<^verbatim>\<open>predict_food(image_path)\<close>, lines 90-112: an exception is printed and raised again.\<close>

definition predict_food ::
  "state \<Rightarrow> string \<Rightarrow> (error + (string \<times> nutrition \<times> real)) \<times> state"
where
  "predict_food st image_path =
     (case predict_food_body st image_path of
        Inl e \<Rightarrow> (Inl e, st\<lparr>stdout := stdout st @ [Error_In ''predict_food'' e]\<rparr>)
      | Inr r \<Rightarrow> (Inr r, st))"

subsection \<open>Endpoints\<close>

text \<open>What an endpoint returns: the status and the payload of the JSON body.\<close>

datatype response =
    Bad_Request string
  | Not_Found string
  | Server_Error error
  | Predict_Ok string real nutrition "recommendation list"
  | Recommend_By_Name_Ok string nutrition "recommendation list"

text \<open>The entry \<^verbatim>\<open>request.files['file']\<close> of a request.\<close>

record upload =
  filename :: string
  content :: file_content

text \<open>\<^verbatim>\<open>os.path.join\<close> of two components on POSIX: an absolute second component wins.\<close>

definition path_join :: "string \<Rightarrow> string \<Rightarrow> string" where
  "path_join a b = (if b \<noteq> [] \<and> hd b = CHR ''/'' then b else a @ ''/'' @ b)"

text \<open>
  \<^verbatim>\<open>predict()\<close>, lines 138-176. Directories are not modelled: \<^verbatim>\<open>os.makedirs\<close> and
  \<^verbatim>\<open>file.save\<close> are taken to succeed, and \<^verbatim>\<open>os.remove\<close> deletes the file just
  written. Any exception of the \<^verbatim>\<open>try\<close> ends in the handler of line 175, which
  answers with status 500 and does nothing else.
\<close>

definition predict :: "state \<Rightarrow> upload option \<Rightarrow> response \<times> state" where
  "predict st request_file =
     (case request_file of
        None \<Rightarrow> (Bad_Request ''No file uploaded'', st)
      | Some file \<Rightarrow>
          if filename file = [] then (Bad_Request ''No file selected'', st)
          else
            let file_path = path_join ''temp'' (filename file);
                st1 = st\<lparr>files := (files st)(file_path \<mapsto> content file)\<rparr>
            in (case predict_food st1 file_path of
                  (Inl e, st2) \<Rightarrow> (Server_Error e, st2)
                | (Inr (food_name, nutrition', confidence), st2) \<Rightarrow>
                    let st3 = st2\<lparr>files := (files st2)(file_path := None)\<rparr>;
                        food_features =
                          (karbohidrat nutrition', protein nutrition', lemak nutrition')
                    in (case get_food_recommendations st3 food_features of
                          (Inl e, st4) \<Rightarrow> (Server_Error e, st4)
                        | (Inr recommendations, st4) \<Rightarrow>
                            (Predict_Ok food_name confidence nutrition' recommendations, st4))))"

text \<open>\<^verbatim>\<open>str.lower\<close> on ASCII strings.\<close>

definition lower_char :: "char \<Rightarrow> char" where
  "lower_char c =
     (let n = (of_char c :: nat) in if 65 \<le> n \<and> n \<le> 90 then char_of (n + 32) else c)"

definition lower :: "string \<Rightarrow> string" where
  "lower s = map lower_char s"

text \<open>
  The search loop of \<^verbatim>\<open>recommend_by_name\<close>, lines 246-251; \<open>food_name\<close> is the
  lowered name of the request. The result \<open>None\<close> is the value of \<^verbatim>\<open>food_data\<close>
  when the loop ends without a \<^verbatim>\<open>break\<close>.
\<close>

fun find_food :: "food list \<Rightarrow> string \<Rightarrow> food option" where
  "find_food [] food_name = None"
| "find_food (food # rest) food_name =
     (if lower (Nama_Makanan_Minuman food) = food_name then Some food
      else find_food rest food_name)"

text \<open>
  \<^verbatim>\<open>recommend_by_name()\<close>, lines 236-279. The argument is the value of the key
  \<^verbatim>\<open>food_name\<close> of the JSON body, \<open>None\<close> when the key is missing.
\<close>

definition recommend_by_name :: "state \<Rightarrow> string option \<Rightarrow> response \<times> state" where
  "recommend_by_name st data =
     (case data of
        None \<Rightarrow> (Bad_Request ''Missing food_name field'', st)
      | Some name \<Rightarrow>
          let food_name = lower name in
          (case dataset st of
             None \<Rightarrow> (Server_Error TypeError, st)
           | Some ds \<Rightarrow>
               (case find_food ds food_name of
                  None \<Rightarrow> (Not_Found ''Food not found in database'', st)
                | Some food_data \<Rightarrow>
                    let food_features = features food_data in
                    (case get_food_recommendations st food_features of
                       (Inl e, st1) \<Rightarrow> (Server_Error e, st1)
                     | (Inr recommendations, st1) \<Rightarrow>
                         (Recommend_By_Name_Ok (Nama_Makanan_Minuman food_data)
                            (nutrition_of food_data) recommendations, st1)))))"

subsection \<open>Vocabulary of the properties\<close>

text \<open>
  The recommendation for one catalog record as the documentation words it: the record
  with the score \<open>1 / (1 + d)\<close> of its own Euclidean distance \<open>d\<close> to the query.
\<close>

definition canonical_recommendation :: "food \<Rightarrow> feature_vector \<Rightarrow> recommendation" where
  "canonical_recommendation f q =
     \<lparr>nama = Nama_Makanan_Minuman f, nutrition = nutrition_of f,
      similarity_score = 1 / (1 + euclidean (features f) q)\<rparr>"

text \<open>
  Two ASCII strings differ only in letter case when they have the same length and, at
  every position, the same character or an upper-case letter and its lower-case form
  (32 code points above).
\<close>

definition is_upper :: "char \<Rightarrow> bool" where
  "is_upper c = (65 \<le> (of_char c :: nat) \<and> (of_char c :: nat) \<le> 90)"

definition same_letter :: "char \<Rightarrow> char \<Rightarrow> bool" where
  "same_letter c d =
     (c = d \<or> (is_upper c \<and> (of_char d :: nat) = of_char c + 32)
            \<or> (is_upper d \<and> (of_char c :: nat) = of_char d + 32))"

definition differ_only_in_case :: "string \<Rightarrow> string \<Rightarrow> bool" where
  "differ_only_in_case a b = list_all2 same_letter a b"

subsection \<open>Sample data\<close>

text \<open>
  A rank of the library's that depends on the query: rows in increasing number for the
  query at the origin, in decreasing number for any other query.
\<close>

definition sample_tie :: "feature_vector \<Rightarrow> nat \<Rightarrow> nat" where
  "sample_tie q i = (if q = (0, 0, 0) then i else 4 - i)"

text \<open>
  The globals as lines 13-16 leave them, no file, nothing printed, with the sample rank
  of the library.
\<close>

definition initial_state :: state where
  "initial_state =
     \<lparr>cnn_model = None, knn_model = None, dataset = None, files = Map.empty, stdout = [],
      tie_rank = sample_tie\<rparr>"

text \<open>
  The three-record catalog of the documented scenario; the calories, which the scenario
  leaves open, are parameters.
\<close>

definition scenario_catalog :: "real \<Rightarrow> real \<Rightarrow> real \<Rightarrow> food list" where
  "scenario_catalog ka kb kc =
     [\<lparr>Nama_Makanan_Minuman = ''A'', Kalori_kcal = ka, Karbohidrat_g = 10, Protein_g = 5, Lemak_g = 2\<rparr>,
      \<lparr>Nama_Makanan_Minuman = ''B'', Kalori_kcal = kb, Karbohidrat_g = 12, Protein_g = 5, Lemak_g = 2\<rparr>,
      \<lparr>Nama_Makanan_Minuman = ''C'', Kalori_kcal = kc, Karbohidrat_g = 50, Protein_g = 1, Lemak_g = 20\<rparr>]"

text \<open>A five-record catalog in which two drinks share one feature vector.\<close>

definition sample_catalog :: "food list" where
  "sample_catalog =
     [\<lparr>Nama_Makanan_Minuman = ''Air Putih'', Kalori_kcal = 0, Karbohidrat_g = 0, Protein_g = 0, Lemak_g = 0\<rparr>,
      \<lparr>Nama_Makanan_Minuman = ''Teh Tawar'', Kalori_kcal = 2, Karbohidrat_g = 0, Protein_g = 0, Lemak_g = 0\<rparr>,
      \<lparr>Nama_Makanan_Minuman = ''Nasi Goreng'', Kalori_kcal = 250, Karbohidrat_g = 30, Protein_g = 8, Lemak_g = 10\<rparr>,
      \<lparr>Nama_Makanan_Minuman = ''Ayam Goreng'', Kalori_kcal = 260, Karbohidrat_g = 10, Protein_g = 20, Lemak_g = 15\<rparr>,
      \<lparr>Nama_Makanan_Minuman = ''Tempe Goreng'', Kalori_kcal = 200, Karbohidrat_g = 10, Protein_g = 12, Lemak_g = 14\<rparr>]"

text \<open>A network of eight classes that puts the maximum on class 7 for every image.\<close>

definition sample_cnn :: "image \<Rightarrow> error + real list" where
  "sample_cnn img = Inr [0.05, 0.05, 0.1, 0.1, 0.05, 0.05, 0.1, 0.5]"

text \<open>The state after \<^verbatim>\<open>load_models()\<close> has run on a parsed dataset.\<close>

definition started :: "food list \<Rightarrow> state" where
  "started ds = snd (load_models (Inr sample_cnn) (Inr ds) initial_state)"

text \<open>A network of five classes that puts the maximum on class 2 for every image.\<close>

definition five_class_cnn :: "image \<Rightarrow> error + real list" where
  "five_class_cnn img = Inr [0.1, 0.1, 0.6, 0.1, 0.1]"

section \<open>Properties\<close>

subsection \<open>Auxiliary facts\<close>

lemma sorted_map_hd_le:
  "sorted (map f xs) \<Longrightarrow> y \<in> set xs \<Longrightarrow> f (hd xs) \<le> f y"
  by (cases xs) auto

lemma strict_min_is_hd:
  assumes "sorted (map f xs)" and "a \<in> set xs"
    and "\<forall>y\<in>set xs. y \<noteq> a \<longrightarrow> f a < (f y :: real)"
  shows "hd xs = a"
proof (rule ccontr)
  assume ne: "hd xs \<noteq> a"
  have "xs \<noteq> []" using assms(2) by auto
  then have "hd xs \<in> set xs" by simp
  then have "f a < f (hd xs)" using assms(3) ne by blast
  moreover have "f (hd xs) \<le> f a" using assms(1,2) by (rule sorted_map_hd_le)
  ultimately show False by simp
qed

lemma recommend_loop_eq:
  "\<forall>i\<in>set indices. i < length d \<Longrightarrow> length recs + length indices \<le> length distances \<Longrightarrow>
   recommend_loop (Some d) distances indices recs =
     Inr (recs @ map (\<lambda>(idx, dist). \<lparr>nama = Nama_Makanan_Minuman (d ! idx),
                        nutrition = nutrition_of (d ! idx),
                        similarity_score = 1 / (1 + dist)\<rparr>) (zip indices (drop (length recs) distances)))"
proof (induction indices arbitrary: recs)
  case Nil
  then show ?case by simp
next
  case (Cons idx rest)
  have lt: "length recs < length distances" using Cons.prems(2) by simp
  then have dr: "drop (length recs) distances = distances ! length recs # drop (Suc (length recs)) distances"
    by (simp add: Cons_nth_drop_Suc)
  show ?case using Cons.prems lt
    by (simp add: Cons.IH dr Let_def)
qed

lemma rdist_nonneg: "0 \<le> rdist a b"
  by (cases a, cases b) (simp add: rdist_def)

lemma rdist_zero_iff: "rdist a b = 0 \<longleftrightarrow> a = b"
proof (cases a, cases b)
  fix a1 a2 a3 b1 b2 b3
  assume a: "a = (a1, a2, a3)" and b: "b = (b1, b2, b3)"
  have "(a1 - b1)\<^sup>2 + (a2 - b2)\<^sup>2 + (a3 - b3)\<^sup>2 = 0 \<longleftrightarrow>
        (a1 - b1)\<^sup>2 = 0 \<and> (a2 - b2)\<^sup>2 = 0 \<and> (a3 - b3)\<^sup>2 = 0"
    using zero_le_power2[of "a1 - b1"] zero_le_power2[of "a2 - b2"] zero_le_power2[of "a3 - b3"]
    by linarith
  then show ?thesis by (simp add: a b rdist_def)
qed

lemma euclidean_nonneg: "0 \<le> euclidean a b"
  by (simp add: euclidean_def rdist_nonneg)

lemma kneighbors_Inr:
  assumes "0 < n_neighbors m" and "n_neighbors m \<le> length (fit_X m)"
  shows "\<exists>indices. kneighbors tie m q = Inr (map (\<lambda>i. euclidean (fit_X m ! i) q) indices, indices)
           \<and> length indices = n_neighbors m
           \<and> distinct indices
           \<and> set indices \<subseteq> {..<length (fit_X m)}
           \<and> indices = take (n_neighbors m)
                 (sort_key (\<lambda>i. rdist (fit_X m ! i) q) (sort_key (tie q) [0..<length (fit_X m)]))
           \<and> sorted (map (\<lambda>i. euclidean (fit_X m ! i) q) indices)"
proof -
  let ?key = "\<lambda>i. rdist (fit_X m ! i) q"
  let ?all = "sort_key ?key (sort_key (tie q) [0..<length (fit_X m)])"
  let ?ind = "take (n_neighbors m) ?all"
  have k: "kneighbors tie m q = Inr (map (\<lambda>i. euclidean (fit_X m ! i) q) ?ind, ?ind)"
    using assms by (simp add: kneighbors_def Let_def)
  have len: "length ?ind = n_neighbors m" using assms by simp
  have dis: "distinct ?ind" by (intro distinct_take) simp
  have "set ?ind \<subseteq> set ?all" by (rule set_take_subset)
  then have sub: "set ?ind \<subseteq> {..<length (fit_X m)}" by auto
  have "sorted (map ?key ?all)" by (rule sorted_sort_key)
  then have "sorted_wrt (\<lambda>i j. ?key i \<le> ?key j) ?all" by (simp add: sorted_map)
  then have "sorted_wrt (\<lambda>i j. ?key i \<le> ?key j) ?ind" by (rule sorted_wrt_take)
  then have "sorted_wrt (\<lambda>i j. euclidean (fit_X m ! i) q \<le> euclidean (fit_X m ! j) q) ?ind"
    by (simp add: euclidean_def)
  then have srt: "sorted (map (\<lambda>i. euclidean (fit_X m ! i) q) ?ind)"
    by (simp add: sorted_map)
  show ?thesis using k len dis sub srt by blast
qed

lemma kneighbors_Inl:
  "n_neighbors m = 0 \<or> length (fit_X m) < n_neighbors m \<Longrightarrow> kneighbors tie m q = Inl ValueError"
  by (simp add: kneighbors_def Let_def)

lemma recommend_loop_aligned:
  assumes "set indices \<subseteq> {..<length ds}"
  shows "recommend_loop (Some ds) (map (\<lambda>i. euclidean (features (ds ! i)) q) indices) indices [] =
         Inr (map (\<lambda>i. canonical_recommendation (ds ! i) q) indices)"
proof -
  have "\<forall>i\<in>set indices. i < length ds" using assms by auto
  then have "recommend_loop (Some ds) (map (\<lambda>i. euclidean (features (ds ! i)) q) indices) indices [] =
     Inr ([] @ map (\<lambda>(idx, dist). \<lparr>nama = Nama_Makanan_Minuman (ds ! idx),
                        nutrition = nutrition_of (ds ! idx),
                        similarity_score = 1 / (1 + dist)\<rparr>)
        (zip indices (drop (length ([]::recommendation list)) (map (\<lambda>i. euclidean (features (ds ! i)) q) indices))))"
    by (intro recommend_loop_eq) simp_all
  also have "\<dots> = Inr (map (\<lambda>i. canonical_recommendation (ds ! i) q) indices)"
    by (simp add: zip_map2 zip_same_conv_map canonical_recommendation_def)
  finally show ?thesis .
qed

lemma body_of_kneighbors:
  assumes st: "knn_model st = Some m" "dataset st = Some ds"
    and fit: "fit_X m = map features ds"
    and k: "0 < n_neighbors m" "n_neighbors m \<le> length ds"
  shows "\<exists>indices. kneighbors (tie_rank st) m q =
               Inr (map (\<lambda>i. euclidean (features (ds ! i)) q) indices, indices)
           \<and> get_food_recommendations_body st q = Inr (map (\<lambda>i. canonical_recommendation (ds ! i) q) indices)
           \<and> length indices = n_neighbors m
           \<and> distinct indices
           \<and> set indices \<subseteq> {..<length ds}
           \<and> indices = take (n_neighbors m)
                 (sort_key (\<lambda>i. rdist (fit_X m ! i) q) (sort_key (tie_rank st q) [0..<length ds]))
           \<and> sorted (map (\<lambda>i. euclidean (features (ds ! i)) q) indices)"
proof -
  from kneighbors_Inr[of m "tie_rank st" q] k fit obtain indices where
    kn: "kneighbors (tie_rank st) m q = Inr (map (\<lambda>i. euclidean (fit_X m ! i) q) indices, indices)"
    and len: "length indices = n_neighbors m"
    and dis: "distinct indices"
    and sub: "set indices \<subseteq> {..<length ds}"
    and eq: "indices = take (n_neighbors m)
                 (sort_key (\<lambda>i. rdist (fit_X m ! i) q) (sort_key (tie_rank st q) [0..<length ds]))"
    and srt: "sorted (map (\<lambda>i. euclidean (fit_X m ! i) q) indices)"
    by auto
  have pt: "\<And>i. i \<in> set indices \<Longrightarrow> fit_X m ! i = features (ds ! i)"
    using sub fit by auto
  have dists: "map (\<lambda>i. euclidean (fit_X m ! i) q) indices = map (\<lambda>i. euclidean (features (ds ! i)) q) indices"
    using pt by simp
  have srt': "sorted (map (\<lambda>i. euclidean (features (ds ! i)) q) indices)"
    using srt by (simp only: dists)
  have kn': "kneighbors (tie_rank st) m q =
               Inr (map (\<lambda>i. euclidean (features (ds ! i)) q) indices, indices)"
    using kn by (simp only: dists)
  have "get_food_recommendations_body st q = Inr (map (\<lambda>i. canonical_recommendation (ds ! i) q) indices)"
    using st kn' recommend_loop_aligned[OF sub, of q]
    by (simp add: get_food_recommendations_body_def)
  then show ?thesis using kn' len dis sub eq srt' by blast
qed

lemma create_knn_model_Inr_D:
  "create_knn_model ds = Inr m \<Longrightarrow> ds \<noteq> [] \<and> n_neighbors m = 5 \<and> fit_X m = map features ds"
  by (auto simp: create_knn_model_def split: if_splits)

lemma started_fields:
  "ds \<noteq> [] \<Longrightarrow> knn_model (started ds) = Some \<lparr>n_neighbors = 5, fit_X = map features ds\<rparr>"
  "dataset (started ds) = Some ds"
  "cnn_model (started ds) = Some sample_cnn"
  "files (started ds) = Map.empty"
  "tie_rank (started ds) = sample_tie"
  by (simp_all add: started_def load_models_def create_knn_model_def initial_state_def Let_def split: sum.splits)

lemma started_built:
  "ds \<noteq> [] \<Longrightarrow> create_knn_model ds = Inr \<lparr>n_neighbors = 5, fit_X = map features ds\<rparr>"
  by (simp add: create_knn_model_def)

lemma kneighbors_Inr_D:
  assumes "kneighbors tie m q = Inr (distances, indices)"
  shows "0 < n_neighbors m \<and> n_neighbors m \<le> length (fit_X m)
         \<and> distances = map (\<lambda>i. euclidean (fit_X m ! i) q) indices"
  using assms by (auto simp: kneighbors_def Let_def split: if_splits)

lemma body_from_kneighbors:
  assumes st: "knn_model st = Some m" "dataset st = Some ds"
    and fit: "fit_X m = map features ds"
    and kn: "kneighbors (tie_rank st) m q = Inr (distances, indices)"
  shows "get_food_recommendations_body st q = Inr (map (\<lambda>i. canonical_recommendation (ds ! i) q) indices)"
proof -
  from kneighbors_Inr_D[OF kn] fit have k: "0 < n_neighbors m" "n_neighbors m \<le> length ds"
    by simp_all
  from body_of_kneighbors[OF st fit k, of q] kn show ?thesis by auto
qed

lemma get_food_recommendations_fst:
  "fst (get_food_recommendations st q) = get_food_recommendations_body st q"
  by (simp add: get_food_recommendations_def split: sum.splits)

lemma score_antimono:
  assumes "euclidean (features (ds ! i)) q \<le> euclidean (features (ds ! j)) q"
  shows "similarity_score (canonical_recommendation (ds ! j) q)
           \<le> similarity_score (canonical_recommendation (ds ! i) q)"
proof -
  have "0 < 1 + euclidean (features (ds ! i)) q"
    using euclidean_nonneg[of "features (ds ! i)" q] by linarith
  then have "1 / (1 + euclidean (features (ds ! j)) q) \<le> 1 / (1 + euclidean (features (ds ! i)) q)"
    using assms by (intro divide_left_mono) (auto intro: mult_pos_pos add_pos_nonneg euclidean_nonneg)
  then show ?thesis by (simp add: canonical_recommendation_def)
qed

lemma scenario_ne: "scenario_catalog ka kb kc \<noteq> []" "length (scenario_catalog ka kb kc) = 3"
  by (simp_all add: scenario_catalog_def)

lemma sample_ne: "sample_catalog \<noteq> []" "length sample_catalog = 5"
  by (simp_all add: sample_catalog_def)

subsection \<open>Order and length of the recommendations\<close>

lemma sample_kneighbors_far:
  "kneighbors sample_tie \<lparr>n_neighbors = 5, fit_X = map features sample_catalog\<rparr> (30, 8, 10) =
     Inr (map (\<lambda>i. euclidean (map features sample_catalog ! i) (30, 8, 10)) [2, 4, 3, 1, 0],
          [2, 4, 3, 1, 0])"
  by (simp add: kneighbors_def sample_tie_def sample_catalog_def features_def rdist_def Let_def)

text \<open>
  C1, as amended. Let the index be the one that \<open>create_knn_model\<close> builds over the
  catalog (five neighbours), which it does for every catalog of at least one record.
  When the catalog has fewer than five records every call fails with
  \<^verbatim>\<open>ValueError\<close>. Otherwise, for every query and every order the library
  gives to equal distances, the call returns the recommendations of \<open>min 5 N\<close>
  distinct catalog indices, each with the score of its own distance, in non-decreasing
  distance, so in non-increasing score. Nothing is promised about the order of records
  at the same distance.
\<close>

theorem recommend_sorted_nearest_first:
  assumes "create_knn_model ds = Inr m" and "knn_model st = Some m" and "dataset st = Some ds"
  shows "(length ds < 5 \<longrightarrow> fst (get_food_recommendations st q) = Inl ValueError) \<and>
         (5 \<le> length ds \<longrightarrow>
            (\<exists>indices.
               fst (get_food_recommendations st q) =
                 Inr (map (\<lambda>i. canonical_recommendation (ds ! i) q) indices)
               \<and> length indices = min 5 (length ds)
               \<and> distinct indices
               \<and> set indices \<subseteq> {..<length ds}
               \<and> sorted (map (\<lambda>i. euclidean (features (ds ! i)) q) indices)
               \<and> sorted_wrt (\<lambda>a b. similarity_score b \<le> similarity_score a)
                    (map (\<lambda>i. canonical_recommendation (ds ! i) q) indices)))"
proof (intro conjI impI)
  from create_knn_model_Inr_D[OF assms(1)]
  have m: "n_neighbors m = 5" "fit_X m = map features ds" by simp_all
  {
    assume "length ds < 5"
    then have "kneighbors (tie_rank st) m q = Inl ValueError"
      using m by (intro kneighbors_Inl) simp
    then show "fst (get_food_recommendations st q) = Inl ValueError"
      using assms(2) by (simp add: get_food_recommendations_fst get_food_recommendations_body_def)
  }
  {
    assume k: "5 \<le> length ds"
    have k': "0 < n_neighbors m" "n_neighbors m \<le> length ds" using m k by simp_all
    from body_of_kneighbors[OF assms(2,3) m(2) k', of q] obtain indices where
      body: "get_food_recommendations_body st q =
               Inr (map (\<lambda>i. canonical_recommendation (ds ! i) q) indices)"
      and len: "length indices = n_neighbors m"
      and dis: "distinct indices"
      and sub: "set indices \<subseteq> {..<length ds}"
      and srt: "sorted (map (\<lambda>i. euclidean (features (ds ! i)) q) indices)"
      by blast
    have "sorted_wrt (\<lambda>i j. euclidean (features (ds ! i)) q \<le> euclidean (features (ds ! j)) q) indices"
      using srt by (simp add: sorted_map)
    then have "sorted_wrt (\<lambda>i j. similarity_score (canonical_recommendation (ds ! j) q)
                            \<le> similarity_score (canonical_recommendation (ds ! i) q)) indices"
      by (rule sorted_wrt_mono_rel[rotated]) (rule score_antimono)
    then have scores: "sorted_wrt (\<lambda>a b. similarity_score b \<le> similarity_score a)
                      (map (\<lambda>i. canonical_recommendation (ds ! i) q) indices)"
      by (simp add: sorted_wrt_map)
    show "\<exists>indices.
               fst (get_food_recommendations st q) =
                 Inr (map (\<lambda>i. canonical_recommendation (ds ! i) q) indices)
               \<and> length indices = min 5 (length ds)
               \<and> distinct indices
               \<and> set indices \<subseteq> {..<length ds}
               \<and> sorted (map (\<lambda>i. euclidean (features (ds ! i)) q) indices)
               \<and> sorted_wrt (\<lambda>a b. similarity_score b \<le> similarity_score a)
                    (map (\<lambda>i. canonical_recommendation (ds ! i) q) indices)"
      using body len dis sub srt scores k m(1)
      by (intro exI[of _ indices]) (simp add: get_food_recommendations_fst)
  }
qed

text \<open>Instances: the three-record scenario catalog and the five-record sample catalog.\<close>

theorem recommend_sorted_nearest_first_witness:
  "fst (get_food_recommendations (started (scenario_catalog 0 0 0)) (10, 5, 2)) = Inl ValueError \<and>
   (\<exists>indices.
      fst (get_food_recommendations (started sample_catalog) (0, 0, 0)) =
        Inr (map (\<lambda>i. canonical_recommendation (sample_catalog ! i) (0, 0, 0)) indices)
      \<and> length indices = 5
      \<and> distinct indices
      \<and> set indices \<subseteq> {..<5}
      \<and> sorted (map (\<lambda>i. euclidean (features (sample_catalog ! i)) (0, 0, 0)) indices)
      \<and> sorted_wrt (\<lambda>a b. similarity_score b \<le> similarity_score a)
           (map (\<lambda>i. canonical_recommendation (sample_catalog ! i) (0, 0, 0)) indices))"
proof
  show "fst (get_food_recommendations (started (scenario_catalog 0 0 0)) (10, 5, 2)) = Inl ValueError"
    using recommend_sorted_nearest_first[OF started_built[OF scenario_ne(1)]
        started_fields(1)[OF scenario_ne(1)] started_fields(2), of 0 0 0 "(10, 5, 2)"]
    by (simp add: scenario_ne)
  show "\<exists>indices.
      fst (get_food_recommendations (started sample_catalog) (0, 0, 0)) =
        Inr (map (\<lambda>i. canonical_recommendation (sample_catalog ! i) (0, 0, 0)) indices)
      \<and> length indices = 5
      \<and> distinct indices
      \<and> set indices \<subseteq> {..<5}
      \<and> sorted (map (\<lambda>i. euclidean (features (sample_catalog ! i)) (0, 0, 0)) indices)
      \<and> sorted_wrt (\<lambda>a b. similarity_score b \<le> similarity_score a)
           (map (\<lambda>i. canonical_recommendation (sample_catalog ! i) (0, 0, 0)) indices)"
    using recommend_sorted_nearest_first[OF started_built[OF sample_ne(1)]
        started_fields(1)[OF sample_ne(1)] started_fields(2), of "(0, 0, 0)"]
    by (simp add: sample_ne)
qed

text \<open>
  C1 as stated fails twice. With three records and the source's five neighbours no list
  of \<open>min 5 3 = 3\<close> recommendations is returned. And with the sample rank of the
  library the query (30, 8, 10) is answered with the record at index 1 before the
  record at index 0, which is equally far: the tie is not broken by catalog index
  ascending.
\<close>

theorem recommend_short_catalog_counterexample:
  "length (scenario_catalog 0 0 0) = 3 \<and>
   fst (get_food_recommendations (started (scenario_catalog 0 0 0)) (10, 5, 2)) = Inl ValueError \<and>
   map_sum id (map nama) (fst (get_food_recommendations (started sample_catalog) (30, 8, 10))) =
     Inr [''Nasi Goreng'', ''Tempe Goreng'', ''Ayam Goreng'', ''Teh Tawar'', ''Air Putih''] \<and>
   Nama_Makanan_Minuman (sample_catalog ! 1) = ''Teh Tawar'' \<and>
   Nama_Makanan_Minuman (sample_catalog ! 0) = ''Air Putih'' \<and>
   euclidean (features (sample_catalog ! 1)) (30, 8, 10) =
     euclidean (features (sample_catalog ! 0)) (30, 8, 10)"
proof -
  have short: "fst (get_food_recommendations (started (scenario_catalog 0 0 0)) (10, 5, 2)) = Inl ValueError"
    by (simp add: get_food_recommendations_fst get_food_recommendations_body_def
        started_fields scenario_ne kneighbors_def)
  have "get_food_recommendations_body (started sample_catalog) (30, 8, 10) =
          Inr (map (\<lambda>i. canonical_recommendation (sample_catalog ! i) (30, 8, 10)) [2, 4, 3, 1, 0])"
    by (rule body_from_kneighbors[OF started_fields(1)[OF sample_ne(1)] started_fields(2)])
       (simp_all add: started_fields sample_kneighbors_far)
  then have names: "map_sum id (map nama) (fst (get_food_recommendations (started sample_catalog) (30, 8, 10))) =
     Inr [''Nasi Goreng'', ''Tempe Goreng'', ''Ayam Goreng'', ''Teh Tawar'', ''Air Putih'']"
    by (simp add: get_food_recommendations_fst canonical_recommendation_def sample_catalog_def)
  have rest: "Nama_Makanan_Minuman (sample_catalog ! 1) = ''Teh Tawar''"
    "Nama_Makanan_Minuman (sample_catalog ! 0) = ''Air Putih''"
    "euclidean (features (sample_catalog ! 1)) (30, 8, 10) =
       euclidean (features (sample_catalog ! 0)) (30, 8, 10)"
    by (simp_all add: sample_catalog_def features_def euclidean_def rdist_def)
  show ?thesis using short names rest by (simp add: scenario_ne)
qed

subsection \<open>Macronutrient split\<close>

text \<open>
  C10. For every TDEE value \<open>t\<close>, the grams returned by
  \<open>hitung_kebutuhan_makronutrien\<close> satisfy
  \<open>4 * carbs_g + 4 * protein_g + 9 * fat_g = t\<close> in exact arithmetic: the
  55/20/25 per cent split accounts for all of the input energy.
\<close>

theorem makronutrien_energy_total:
  "(case hitung_kebutuhan_makronutrien t of
      (carbs_g, protein_g, fat_g) \<Rightarrow> 4 * carbs_g + 4 * protein_g + 9 * fat_g) = t"
  by (simp add: hitung_kebutuhan_makronutrien_def Let_def)

subsection \<open>The score read at the growing length\<close>

lemma sample_kneighbors:
  "kneighbors sample_tie \<lparr>n_neighbors = 5, fit_X = map features sample_catalog\<rparr> (0, 0, 0) =
     Inr (map (\<lambda>i. euclidean (map features sample_catalog ! i) (0, 0, 0)) [0, 1, 4, 3, 2], [0, 1, 4, 3, 2])"
  by (simp add: kneighbors_def sample_tie_def sample_catalog_def features_def rdist_def Let_def)

text \<open>
  C2. Let the index hold the feature vectors of the catalog in catalog order and let
  \<^verbatim>\<open>kneighbors\<close> return \<open>distances\<close> and \<open>indices\<close> for the query, whatever
  order the library gives to equal distances. Then the list that the loop builds,
  reading \<^verbatim>\<open>distances[0][len(recommendations)]\<close>, is the list of the canonical
  recommendations of \<open>indices\<close>: at every position the score is \<open>1 / (1 + d)\<close> for
  that neighbour's own Euclidean distance \<open>d\<close> to the query.
\<close>

theorem score_indexing_matches_own_distance:
  assumes "knn_model st = Some m" and "dataset st = Some ds"
    and "fit_X m = map features ds"
    and "kneighbors (tie_rank st) m q = Inr (distances, indices)"
  shows "fst (get_food_recommendations st q) =
           Inr (map (\<lambda>i. canonical_recommendation (ds ! i) q) indices)
         \<and> distances = map (\<lambda>i. euclidean (features (ds ! i)) q) indices"
proof -
  have body: "get_food_recommendations_body st q =
           Inr (map (\<lambda>i. canonical_recommendation (ds ! i) q) indices)"
    using assms by (rule body_from_kneighbors)
  from kneighbors_Inr_D[OF assms(4)] assms(3)
  have k: "0 < n_neighbors m" "n_neighbors m \<le> length ds" by simp_all
  from body_of_kneighbors[OF assms(1,2,3) k, of q] assms(4)
  have "distances = map (\<lambda>i. euclidean (features (ds ! i)) q) indices" by auto
  then show ?thesis using body by (simp add: get_food_recommendations_fst)
qed

text \<open>Instance: the sample catalog after start-up, queried at the origin.\<close>

theorem score_indexing_matches_own_distance_witness:
  "fst (get_food_recommendations (started sample_catalog) (0, 0, 0)) =
     Inr (map (\<lambda>i. canonical_recommendation (sample_catalog ! i) (0, 0, 0)) [0, 1, 4, 3, 2])
   \<and> map (\<lambda>i. euclidean (map features sample_catalog ! i) (0, 0, 0)) [0, 1, 4, 3, 2] =
       map (\<lambda>i. euclidean (features (sample_catalog ! i)) (0, 0, 0)) [0, 1, 4, 3, 2]"
  by (rule score_indexing_matches_own_distance
        [OF started_fields(1)[OF sample_ne(1)] started_fields(2)])
     (simp_all add: started_fields sample_kneighbors)

subsection \<open>Determinism and purity\<close>

lemma body_reads_index_and_catalog:
  "knn_model st' = knn_model st \<Longrightarrow> dataset st' = dataset st \<Longrightarrow> tie_rank st' = tie_rank st \<Longrightarrow>
   get_food_recommendations_body st' q = get_food_recommendations_body st q"
  by (simp add: get_food_recommendations_body_def split: option.splits sum.splits)

text \<open>
  C4. Two calls of \<open>get_food_recommendations\<close> in a row with the same query give the
  same result (the same ordered list, or the same exception), and a call changes
  neither the catalog nor the index nor the network nor the files: the only effect is
  the line printed when the call fails.
\<close>

theorem recommend_deterministic_and_pure:
  "(case get_food_recommendations st q of
      (r1, st1) \<Rightarrow>
        (case get_food_recommendations st1 q of
           (r2, st2) \<Rightarrow>
             r1 = r2 \<and>
             knn_model st1 = knn_model st \<and> dataset st1 = dataset st \<and>
             cnn_model st1 = cnn_model st \<and> files st1 = files st \<and>
             knn_model st2 = knn_model st \<and> dataset st2 = dataset st))"
proof (cases "get_food_recommendations_body st q")
  case (Inl e)
  let ?st1 = "st\<lparr>stdout := stdout st @ [Error_In ''get_food_recommendations'' e]\<rparr>"
  have "get_food_recommendations_body ?st1 q = Inl e"
    using Inl body_reads_index_and_catalog[of ?st1 st q] by simp
  then show ?thesis using Inl by (simp add: get_food_recommendations_def)
next
  case (Inr recs)
  then show ?thesis by (simp add: get_food_recommendations_def)
qed

subsection \<open>A query that is a catalog vector\<close>

lemma sample_features:
  "features (sample_catalog ! 0) = (0, 0, 0)" "features (sample_catalog ! 1) = (0, 0, 0)"
  "features (sample_catalog ! 2) = (30, 8, 10)"
  "features (sample_catalog ! Suc 0) = (0, 0, 0)"
  "Nama_Makanan_Minuman (sample_catalog ! 1) = ''Teh Tawar''"
  "features (sample_catalog ! 3) = (10, 20, 15)" "features (sample_catalog ! 4) = (10, 12, 14)"
  by (simp_all add: sample_catalog_def features_def)

text \<open>
  C5, as amended. Let the index be the one that \<open>create_knn_model\<close> builds over a
  catalog of at least five records. If the query is the feature vector of the record at
  index \<open>j\<close>, then, for every order the library gives to equal distances, the first
  recommendation has the score exactly 1 and is a record of the catalog whose feature
  vector is the query; so it is the record at \<open>j\<close> itself when no other record has the
  same feature vector.
\<close>

theorem exact_match_is_first:
  assumes "create_knn_model ds = Inr m" and "knn_model st = Some m" and "dataset st = Some ds"
    and "5 \<le> length ds" and "j < length ds"
  shows "\<exists>i rest.
           fst (get_food_recommendations st (features (ds ! j))) =
             Inr (\<lparr>nama = Nama_Makanan_Minuman (ds ! i), nutrition = nutrition_of (ds ! i),
                   similarity_score = 1\<rparr> # rest)
           \<and> i < length ds \<and> features (ds ! i) = features (ds ! j)
           \<and> ((\<forall>i'<length ds. features (ds ! i') = features (ds ! j) \<longrightarrow> i' = j) \<longrightarrow> i = j)"
proof -
  let ?q = "features (ds ! j)"
  let ?key = "\<lambda>i. rdist (fit_X m ! i) ?q"
  let ?all = "sort_key ?key (sort_key (tie_rank st ?q) [0..<length ds])"
  from create_knn_model_Inr_D[OF assms(1)]
  have m: "n_neighbors m = 5" "fit_X m = map features ds" by simp_all
  have k: "0 < n_neighbors m" "n_neighbors m \<le> length ds" using m assms(4) by simp_all
  from body_of_kneighbors[OF assms(2,3) m(2) k, of ?q] obtain indices where
    body: "get_food_recommendations_body st ?q = Inr (map (\<lambda>i. canonical_recommendation (ds ! i) ?q) indices)"
    and eq: "indices = take (n_neighbors m) ?all"
    by blast
  have ne: "?all \<noteq> []" using assms(5) by (auto simp flip: length_0_conv)
  define i where "i = hd ?all"
  have ind: "indices = i # tl indices"
    using eq ne k(1) by (cases ?all; cases "n_neighbors m") (auto simp: i_def)
  have srt: "sorted (map ?key ?all)" by (rule sorted_sort_key)
  have jin: "j \<in> set ?all" using assms(5) by simp
  have ilt: "i < length ds"
    using hd_in_set[OF ne] by (simp add: i_def)
  have key: "?key y = rdist (features (ds ! y)) ?q" if "y < length ds" for y
    using that m(2) by simp
  have kj: "?key j = 0" using key[OF assms(5)] by (simp add: rdist_zero_iff)
  have "?key i \<le> ?key j" unfolding i_def using srt jin by (rule sorted_map_hd_le)
  then have "?key i = 0"
    using kj rdist_nonneg[of "fit_X m ! i" ?q] by linarith
  then have fi: "features (ds ! i) = ?q"
    using key[OF ilt] by (simp add: rdist_zero_iff)
  have "canonical_recommendation (ds ! i) ?q =
      \<lparr>nama = Nama_Makanan_Minuman (ds ! i), nutrition = nutrition_of (ds ! i), similarity_score = 1\<rparr>"
    using fi by (simp add: canonical_recommendation_def euclidean_def rdist_zero_iff[THEN iffD2])
  then have "fst (get_food_recommendations st ?q) =
      Inr (\<lparr>nama = Nama_Makanan_Minuman (ds ! i), nutrition = nutrition_of (ds ! i), similarity_score = 1\<rparr>
           # map (\<lambda>i. canonical_recommendation (ds ! i) ?q) (tl indices))"
    using body ind by (metis (no_types, lifting) get_food_recommendations_fst list.simps(9))
  then show ?thesis using ilt fi by blast
qed

text \<open>Instance: the third record of the sample catalog, whose feature vector is its own.\<close>

theorem exact_match_is_first_witness:
  "\<exists>rest. fst (get_food_recommendations (started sample_catalog) (features (sample_catalog ! 2))) =
      Inr (\<lparr>nama = ''Nasi Goreng'',
            nutrition = \<lparr>kalori = 250, karbohidrat = 30, protein = 8, lemak = 10\<rparr>,
            similarity_score = 1\<rparr> # rest)"
proof -
  have j: "(2::nat) < length sample_catalog" by (simp add: sample_ne)
  have n: "5 \<le> length sample_catalog" by (simp add: sample_ne)
  from exact_match_is_first[OF started_built[OF sample_ne(1)] started_fields(1)[OF sample_ne(1)]
      started_fields(2) n j]
  obtain i rest where
    r: "fst (get_food_recommendations (started sample_catalog) (features (sample_catalog ! 2))) =
             Inr (\<lparr>nama = Nama_Makanan_Minuman (sample_catalog ! i),
                   nutrition = nutrition_of (sample_catalog ! i),
                   similarity_score = 1\<rparr> # rest)"
    and lt: "i < length sample_catalog"
    and f: "features (sample_catalog ! i) = features (sample_catalog ! 2)"
    by blast
  from lt have "i = 0 \<or> i = 1 \<or> i = 2 \<or> i = 3 \<or> i = 4" by (simp add: sample_ne) arith
  then have "i = 2" using f by (auto simp: sample_features)
  then show ?thesis using r by (simp add: sample_catalog_def nutrition_of_def)
qed

text \<open>
  C5 as stated fails: the record at index 1 of the sample catalog has the feature vector
  of the record at index 0, and the query at that vector is answered with the record at
  index 0 first.
\<close>

theorem exact_match_duplicate_counterexample:
  "features (sample_catalog ! 1) = (0, 0, 0) \<and>
   Nama_Makanan_Minuman (sample_catalog ! 1) = ''Teh Tawar'' \<and>
   map_sum id (map nama) (fst (get_food_recommendations (started sample_catalog) (0, 0, 0))) =
     Inr [''Air Putih'', ''Teh Tawar'', ''Tempe Goreng'', ''Ayam Goreng'', ''Nasi Goreng'']"
proof -
  have "get_food_recommendations_body (started sample_catalog) (0, 0, 0) =
          Inr (map (\<lambda>i. canonical_recommendation (sample_catalog ! i) (0, 0, 0)) [0, 1, 4, 3, 2])"
    by (rule body_from_kneighbors[OF started_fields(1)[OF sample_ne(1)] started_fields(2)])
       (simp_all add: started_fields sample_kneighbors)
  then have "map_sum id (map nama) (fst (get_food_recommendations (started sample_catalog) (0, 0, 0))) =
     Inr [''Air Putih'', ''Teh Tawar'', ''Tempe Goreng'', ''Ayam Goreng'', ''Nasi Goreng'']"
    by (simp add: get_food_recommendations_fst canonical_recommendation_def sample_catalog_def)
  then show ?thesis using sample_features(2,5) by simp
qed

subsection \<open>The documented scenario\<close>

lemma sqrt_gt_two_iff: "2 < sqrt x \<longleftrightarrow> 4 < x"
  using real_sqrt_less_iff[of 4 x] by simp

lemma scenario_nth:
  "(scenario_catalog ka kb kc @ extras) ! 0 =
     \<lparr>Nama_Makanan_Minuman = ''A'', Kalori_kcal = ka, Karbohidrat_g = 10, Protein_g = 5, Lemak_g = 2\<rparr>"
  "(scenario_catalog ka kb kc @ extras) ! 1 =
     \<lparr>Nama_Makanan_Minuman = ''B'', Kalori_kcal = kb, Karbohidrat_g = 12, Protein_g = 5, Lemak_g = 2\<rparr>"
  "(scenario_catalog ka kb kc @ extras) ! 2 =
     \<lparr>Nama_Makanan_Minuman = ''C'', Kalori_kcal = kc, Karbohidrat_g = 50, Protein_g = 1, Lemak_g = 20\<rparr>"
  by (simp_all add: scenario_catalog_def)

lemma scenario_rdist:
  "rdist (features ((scenario_catalog ka kb kc @ extras) ! 0)) (10, 5, 2) = 0"
  "rdist (features ((scenario_catalog ka kb kc @ extras) ! 1)) (10, 5, 2) = 4"
  "rdist (features ((scenario_catalog ka kb kc @ extras) ! 2)) (10, 5, 2) = 1940"
  by (simp_all add: scenario_catalog_def features_def rdist_def)

lemma scenario_first_two:
  fixes key :: "nat \<Rightarrow> real"
  assumes srt: "sorted (map key xs)" and dis: "distinct xs" and set: "set xs = {0..<n}"
    and n: "2 \<le> n" and k0: "key 0 = 0" and k1: "key 1 = 4"
    and far: "\<forall>y<n. y \<noteq> 0 \<and> y \<noteq> 1 \<longrightarrow> 4 < key y"
  shows "\<exists>rest. xs = 0 # 1 # rest"
proof -
  have in0: "0 \<in> set xs" and in1: "1 \<in> set xs" using set n by auto
  have "\<forall>y\<in>set xs. y \<noteq> 0 \<longrightarrow> key 0 < key y"
  proof (intro ballI impI)
    fix y assume "y \<in> set xs" "y \<noteq> 0"
    then show "key 0 < key y"
      using far set k0 k1 by (cases "y = 1") auto
  qed
  with srt in0 have h: "hd xs = 0" by (rule strict_min_is_hd)
  have xs: "xs = 0 # tl xs" using h in0 by (cases xs) auto
  let ?t = "tl xs"
  have srt_t: "sorted (map key ?t)" using srt xs by (metis list.simps(9) sorted_simps(2))
  have not0: "0 \<notin> set ?t" using dis xs by (metis distinct.simps(2))
  have in1t: "1 \<in> set ?t" using in1 xs by (metis One_nat_def nat.simps(3) set_ConsD)
  have "\<forall>y\<in>set ?t. y \<noteq> 1 \<longrightarrow> key 1 < key y"
  proof (intro ballI impI)
    fix y assume y: "y \<in> set ?t" "y \<noteq> 1"
    then have "y \<noteq> 0" using not0 by (cases "y = 0") simp_all
    moreover have "y < n" using y(1) set xs by (metis atLeastLessThan_iff list.set_intros(2))
    ultimately show "key 1 < key y" using far y(2) k1 by simp
  qed
  with srt_t in1t have "hd ?t = 1" by (rule strict_min_is_hd)
  then have "?t = 1 # tl ?t" using in1t by (cases ?t) auto
  then show ?thesis using xs by metis
qed

text \<open>
  C6, as amended. The index that \<open>create_knn_model\<close> builds has five neighbours, not
  two. Over the catalog A (10, 5, 2), B (12, 5, 2), C (50, 1, 20) alone, or with one more
  record, the query (10, 5, 2) fails with \<^verbatim>\<open>ValueError\<close>. Over the catalog A, B, C
  followed by at least two more records, each farther than 2 from the query, the call
  returns five recommendations of which the first is A with the score 1 and the second
  is B with the score \<open>1 / (1 + 2)\<close>, whatever the calories and whatever order the
  library gives to equal distances.
\<close>

theorem scenario_with_five_neighbours:
  assumes "create_knn_model (scenario_catalog ka kb kc @ extras) = Inr m"
    and "knn_model st = Some m"
    and "dataset st = Some (scenario_catalog ka kb kc @ extras)"
  shows "(length extras < 2 \<longrightarrow>
            fst (get_food_recommendations st (10, 5, 2)) = Inl ValueError) \<and>
         (2 \<le> length extras \<and> (\<forall>f\<in>set extras. 2 < euclidean (features f) (10, 5, 2)) \<longrightarrow>
            (\<exists>rest.
               fst (get_food_recommendations st (10, 5, 2)) =
                 Inr (\<lparr>nama = ''A'',
                       nutrition = \<lparr>kalori = ka, karbohidrat = 10, protein = 5, lemak = 2\<rparr>,
                       similarity_score = 1\<rparr> #
                      \<lparr>nama = ''B'',
                       nutrition = \<lparr>kalori = kb, karbohidrat = 12, protein = 5, lemak = 2\<rparr>,
                       similarity_score = 1 / (1 + 2)\<rparr> # rest)
               \<and> length rest = 3))"
proof (intro conjI impI)
  let ?ds = "scenario_catalog ka kb kc @ extras"
  let ?q = "(10, 5, 2) :: feature_vector"
  from create_knn_model_Inr_D[OF assms(1)]
  have m: "n_neighbors m = 5" "fit_X m = map features ?ds" by simp_all
  have len: "length ?ds = 3 + length extras" by (simp add: scenario_ne)
  {
    assume "length extras < 2"
    then have "kneighbors (tie_rank st) m ?q = Inl ValueError"
      using m len by (intro kneighbors_Inl) simp
    then show "fst (get_food_recommendations st ?q) = Inl ValueError"
      using assms(2) by (simp add: get_food_recommendations_fst get_food_recommendations_body_def)
  }
  {
    assume a: "2 \<le> length extras \<and> (\<forall>f\<in>set extras. 2 < euclidean (features f) ?q)"
    let ?key = "\<lambda>i. rdist (fit_X m ! i) ?q"
    let ?all = "sort_key ?key (sort_key (tie_rank st ?q) [0..<length ?ds])"
    have k: "0 < n_neighbors m" "n_neighbors m \<le> length ?ds" using m len a by simp_all
    from body_of_kneighbors[OF assms(2,3) m(2) k, of ?q] obtain indices where
      body: "get_food_recommendations_body st ?q =
               Inr (map (\<lambda>i. canonical_recommendation (?ds ! i) ?q) indices)"
      and li: "length indices = n_neighbors m"
      and eq: "indices = take (n_neighbors m) ?all"
      by blast
    have key: "?key y = rdist (features (?ds ! y)) ?q" if "y < length ?ds" for y
      using that by (simp only: m(2) nth_map)
    have k0: "?key 0 = 0" using key[of 0] len by (simp only: scenario_rdist)
    have k1: "?key 1 = 4" using key[of 1] len by (simp only: scenario_rdist)
    have far: "\<forall>y<length ?ds. y \<noteq> 0 \<and> y \<noteq> 1 \<longrightarrow> 4 < ?key y"
    proof (intro allI impI)
      fix y assume y: "y < length ?ds" "y \<noteq> 0 \<and> y \<noteq> 1"
      show "4 < ?key y"
      proof (cases "y = 2")
        case True
        then show ?thesis using key[OF y(1)] by (simp only: scenario_rdist)
      next
        case False
        then have ge: "3 \<le> y" using y(2) by arith
        then have "?ds ! y = extras ! (y - 3)"
          by (simp add: nth_append scenario_ne)
        moreover have "extras ! (y - 3) \<in> set extras"
          using y(1) ge len by (intro nth_mem) arith
        ultimately have "2 < euclidean (features (?ds ! y)) ?q" using a by simp
        then show ?thesis using key[OF y(1)] by (simp add: euclidean_def sqrt_gt_two_iff)
      qed
    qed
    have "\<exists>rest. ?all = 0 # 1 # rest"
      using len a by (intro scenario_first_two[OF _ _ _ _ k0 k1 far]) (simp_all add: sorted_sort_key)
    then obtain rest' where all: "?all = 0 # 1 # rest'" by blast
    have ind: "indices = 0 # 1 # take 3 rest'"
      using eq all m(1) by (simp add: take_Cons' numeral_eq_Suc)
    have l3: "length (take 3 rest') = 3" using li ind m(1) by simp
    have c0: "canonical_recommendation (?ds ! 0) ?q =
        \<lparr>nama = ''A'', nutrition = \<lparr>kalori = ka, karbohidrat = 10, protein = 5, lemak = 2\<rparr>,
         similarity_score = 1\<rparr>"
      by (simp only: scenario_nth(1))
         (simp add: canonical_recommendation_def euclidean_def rdist_def features_def
            nutrition_of_def)
    have c1: "canonical_recommendation (?ds ! 1) ?q =
        \<lparr>nama = ''B'', nutrition = \<lparr>kalori = kb, karbohidrat = 12, protein = 5, lemak = 2\<rparr>,
         similarity_score = 1 / (1 + 2)\<rparr>"
      by (simp only: scenario_nth(2))
         (simp add: canonical_recommendation_def euclidean_def rdist_def features_def
            nutrition_of_def)
    have "fst (get_food_recommendations st ?q) =
        Inr (canonical_recommendation (?ds ! 0) ?q # canonical_recommendation (?ds ! 1) ?q #
             map (\<lambda>i. canonical_recommendation (?ds ! i) ?q) (take 3 rest'))"
      using body by (simp only: get_food_recommendations_fst ind list.map)
    then show "\<exists>rest.
               fst (get_food_recommendations st ?q) =
                 Inr (\<lparr>nama = ''A'',
                       nutrition = \<lparr>kalori = ka, karbohidrat = 10, protein = 5, lemak = 2\<rparr>,
                       similarity_score = 1\<rparr> #
                      \<lparr>nama = ''B'',
                       nutrition = \<lparr>kalori = kb, karbohidrat = 12, protein = 5, lemak = 2\<rparr>,
                       similarity_score = 1 / (1 + 2)\<rparr> # rest)
               \<and> length rest = 3"
      using l3 by (simp only: c0 c1) (metis length_map)
  }
qed

theorem scenario_with_five_neighbours_witness:
  "fst (get_food_recommendations (started (scenario_catalog 1 2 3)) (10, 5, 2)) = Inl ValueError \<and>
   (\<exists>rest.
      fst (get_food_recommendations (started (scenario_catalog 1 2 3 @ drop 3 sample_catalog))
             (10, 5, 2)) =
        Inr (\<lparr>nama = ''A'',
              nutrition = \<lparr>kalori = 1, karbohidrat = 10, protein = 5, lemak = 2\<rparr>,
              similarity_score = 1\<rparr> #
             \<lparr>nama = ''B'',
              nutrition = \<lparr>kalori = 2, karbohidrat = 12, protein = 5, lemak = 2\<rparr>,
              similarity_score = 1 / (1 + 2)\<rparr> # rest)
      \<and> length rest = 3)"
proof (rule conjI)
  have ne: "scenario_catalog 1 2 3 @ [] \<noteq> []" by (simp add: scenario_ne)
  show "fst (get_food_recommendations (started (scenario_catalog 1 2 3)) (10, 5, 2)) = Inl ValueError"
    using scenario_with_five_neighbours[OF started_built[OF ne] started_fields(1)[OF ne]
        started_fields(2)]
    by simp
next
  have ne: "scenario_catalog 1 2 3 @ drop 3 sample_catalog \<noteq> []" by (simp add: scenario_ne)
  have far: "2 \<le> length (drop 3 sample_catalog) \<and>
             (\<forall>f\<in>set (drop 3 sample_catalog). 2 < euclidean (features f) (10, 5, 2))"
    by (simp add: sample_catalog_def euclidean_def rdist_def features_def sqrt_gt_two_iff)
  show "\<exists>rest.
      fst (get_food_recommendations (started (scenario_catalog 1 2 3 @ drop 3 sample_catalog))
             (10, 5, 2)) =
        Inr (\<lparr>nama = ''A'',
              nutrition = \<lparr>kalori = 1, karbohidrat = 10, protein = 5, lemak = 2\<rparr>,
              similarity_score = 1\<rparr> #
             \<lparr>nama = ''B'',
              nutrition = \<lparr>kalori = 2, karbohidrat = 12, protein = 5, lemak = 2\<rparr>,
              similarity_score = 1 / (1 + 2)\<rparr> # rest)
      \<and> length rest = 3"
    using scenario_with_five_neighbours[OF started_built[OF ne] started_fields(1)[OF ne]
        started_fields(2)] far
    by blast
qed

text \<open>
  C6 as stated fails: the spec has the call return exactly A and B with k = 2. The index
  that \<open>load_models\<close> builds over the three records has five neighbours, and
  the query (10, 5, 2) ends in \<^verbatim>\<open>ValueError\<close> instead of a list of two.
\<close>

theorem scenario_as_built_counterexample:
  "knn_model (started (scenario_catalog 100 120 500)) =
     Some \<lparr>n_neighbors = 5, fit_X = [(10, 5, 2), (12, 5, 2), (50, 1, 20)]\<rparr> \<and>
   get_food_recommendations_body (started (scenario_catalog 100 120 500)) (10, 5, 2) =
     Inl ValueError \<and>
   fst (get_food_recommendations (started (scenario_catalog 100 120 500)) (10, 5, 2)) \<noteq>
     Inr [\<lparr>nama = ''A'',
           nutrition = \<lparr>kalori = 100, karbohidrat = 10, protein = 5, lemak = 2\<rparr>,
           similarity_score = 1\<rparr>,
          \<lparr>nama = ''B'',
           nutrition = \<lparr>kalori = 120, karbohidrat = 12, protein = 5, lemak = 2\<rparr>,
           similarity_score = 1 / (1 + 2)\<rparr>]"
proof -
  have k: "knn_model (started (scenario_catalog 100 120 500)) =
     Some \<lparr>n_neighbors = 5, fit_X = [(10, 5, 2), (12, 5, 2), (50, 1, 20)]\<rparr>"
    by (simp add: started_fields(1)[OF scenario_ne(1)])
       (simp add: scenario_catalog_def features_def)
  have b: "get_food_recommendations_body (started (scenario_catalog 100 120 500)) (10, 5, 2) =
     Inl ValueError"
    by (simp add: get_food_recommendations_body_def k kneighbors_def)
  show ?thesis using k b by (simp add: get_food_recommendations_fst)
qed

subsection \<open>Building the index over a short catalog\<close>

text \<open>
  C8, as amended. Building makes no comparison of the catalog size with the number of
  neighbours: for every non-empty catalog \<open>create_knn_model\<close> and \<open>load_models\<close>
  succeed, and no catalog makes the build fail with \<open>InsufficientDataError\<close>. With
  fewer than five records the shortage shows only when a query is made: every call of
  \<open>get_food_recommendations\<close> fails with \<^verbatim>\<open>ValueError\<close>.
\<close>

theorem build_has_no_size_check:
  "(ds \<noteq> [] \<longrightarrow>
      create_knn_model ds = Inr \<lparr>n_neighbors = 5, fit_X = map features ds\<rparr> \<and>
      fst (load_models (Inr cnn) (Inr ds) st0) = Inr ()) \<and>
   create_knn_model ds \<noteq> Inl InsufficientDataError \<and>
   (ds \<noteq> [] \<and> length ds < 5 \<longrightarrow>
      fst (get_food_recommendations (snd (load_models (Inr cnn) (Inr ds) st0)) q) = Inl ValueError)"
  by (auto simp: create_knn_model_def load_models_def Let_def get_food_recommendations_fst
      get_food_recommendations_body_def kneighbors_def)

text \<open>Instance: the three-record scenario catalog.\<close>

theorem build_has_no_size_check_witness:
  "create_knn_model (scenario_catalog 0 0 0) =
     Inr \<lparr>n_neighbors = 5, fit_X = map features (scenario_catalog 0 0 0)\<rparr> \<and>
   fst (load_models (Inr sample_cnn) (Inr (scenario_catalog 0 0 0)) initial_state) = Inr () \<and>
   fst (get_food_recommendations
          (snd (load_models (Inr sample_cnn) (Inr (scenario_catalog 0 0 0)) initial_state)) (10, 5, 2)) =
     Inl ValueError"
  using build_has_no_size_check[of "scenario_catalog 0 0 0" sample_cnn initial_state "(10, 5, 2)"]
  by (simp add: scenario_ne)

text \<open>C8 as stated fails: the build over three records succeeds.\<close>

theorem build_short_catalog_counterexample:
  "length (scenario_catalog 0 0 0) = 3 \<and>
   create_knn_model (scenario_catalog 0 0 0) =
     Inr \<lparr>n_neighbors = 5, fit_X = [(10, 5, 2), (12, 5, 2), (50, 1, 20)]\<rparr>"
  by (simp add: create_knn_model_def scenario_catalog_def features_def)

subsection \<open>A class index outside the catalog\<close>

lemma predict_food_body_IndexError:
  assumes "files st p = Some (Image img)" and "cnn_model st = Some cnn"
    and "cnn img = Inr prediction" and "prediction \<noteq> []"
    and "dataset st = Some ds" and "length ds \<le> np_argmax prediction"
  shows "predict_food_body st p = Inl IndexError"
  using assms by (simp add: predict_food_body_def Let_def)

lemma sample_argmax:
  "np_argmax [0.05, 0.05, 0.1, 0.1, 0.05, 0.05, 0.1, 0.5] = 7"
  "np_argmax [1 / 20, 1 / 20, 1 / 10, 1 / 10, 1 / 20, 1 / 20, 1 / 10, 1 / 2] = 7"
  "np_argmax [0.1, 0.1, 0.6, 0.1, 0.1] = 2"
  "np_argmax [1 / 10, 1 / 10, 3 / 5, 1 / 10, 1 / 10] = 2"
  by (simp_all add: np_argmax_def np_max_def)

text \<open>
  C3, as amended. If the network's class index for the uploaded image is not below the
  catalog size, \<open>predict\<close> answers with status 500 carrying Python's
  \<^verbatim>\<open>IndexError\<close>, and the recommendation stage is not executed: whatever index is
  loaded (or none), the response and the state are those left by the failure of
  \<open>predict_food\<close>, that is the staged file and the one line it printed.
\<close>

theorem class_index_out_of_range:
  assumes "filename file \<noteq> []" and "content file = Image img"
    and "cnn_model st = Some cnn" and "cnn img = Inr prediction" and "prediction \<noteq> []"
    and "dataset st = Some ds" and "length ds \<le> np_argmax prediction"
  shows "predict st (Some file) =
           (Server_Error IndexError,
            st\<lparr>files := (files st)(path_join ''temp'' (filename file) \<mapsto> content file),
               stdout := stdout st @ [Error_In ''predict_food'' IndexError]\<rparr>)"
proof -
  let ?p = "path_join ''temp'' (filename file)"
  let ?st1 = "st\<lparr>files := (files st)(?p \<mapsto> content file)\<rparr>"
  have "predict_food_body ?st1 ?p = Inl IndexError"
    using assms by (intro predict_food_body_IndexError[of _ _ img cnn prediction ds]) simp_all
  then have "predict_food ?st1 ?p =
      (Inl IndexError, ?st1\<lparr>stdout := stdout ?st1 @ [Error_In ''predict_food'' IndexError]\<rparr>)"
    by (simp add: predict_food_def)
  then show ?thesis using assms(1) by (simp add: predict_def Let_def)
qed

text \<open>Instance: class 7 of the sample network against the five-record sample catalog.\<close>

theorem class_index_out_of_range_witness:
  "predict (started sample_catalog) (Some \<lparr>filename = ''nasi.jpg'', content = Image [1, 2, 3]\<rparr>) =
     (Server_Error IndexError,
      (started sample_catalog)
        \<lparr>files := (files (started sample_catalog))(''temp/nasi.jpg'' \<mapsto> Image [1, 2, 3]),
         stdout := stdout (started sample_catalog) @ [Error_In ''predict_food'' IndexError]\<rparr>)"
  using class_index_out_of_range[of "\<lparr>filename = ''nasi.jpg'', content = Image [1, 2, 3]\<rparr>"
      "[1, 2, 3]" "started sample_catalog" sample_cnn
      "[0.05, 0.05, 0.1, 0.1, 0.05, 0.05, 0.1, 0.5]" sample_catalog]
  by (simp add: started_fields sample_cnn_def sample_argmax sample_ne path_join_def)

text \<open>
  C3 as stated fails: for class index 7 and catalog size 5 the error is
  \<^verbatim>\<open>IndexError\<close>, not \<open>CatalogMismatchError\<close>.
\<close>

theorem catalog_mismatch_counterexample:
  "np_argmax [0.05, 0.05, 0.1, 0.1, 0.05, 0.05, 0.1, 0.5] = 7 \<and> length sample_catalog = 5 \<and>
   fst (predict (started sample_catalog) (Some \<lparr>filename = ''nasi.jpg'', content = Image [1, 2, 3]\<rparr>)) =
     Server_Error IndexError \<and>
   fst (predict (started sample_catalog) (Some \<lparr>filename = ''nasi.jpg'', content = Image [1, 2, 3]\<rparr>)) \<noteq>
     Server_Error CatalogMismatchError"
  by (simp add: predict_def predict_food_def predict_food_body_def started_fields sample_cnn_def
      sample_argmax sample_ne path_join_def Let_def)

subsection \<open>The staged upload\<close>

lemma get_food_recommendations_files:
  "files (snd (get_food_recommendations st q)) = files st"
  by (simp add: get_food_recommendations_def split: sum.splits)

lemma predict_failure:
  assumes "filename file \<noteq> []"
    and "predict_food_body (st\<lparr>files := (files st)(path_join ''temp'' (filename file) \<mapsto> content file)\<rparr>)
           (path_join ''temp'' (filename file)) = Inl e"
  shows "predict st (Some file) =
           (Server_Error e,
            st\<lparr>files := (files st)(path_join ''temp'' (filename file) \<mapsto> content file),
               stdout := stdout st @ [Error_In ''predict_food'' e]\<rparr>)"
  using assms by (simp add: predict_def predict_food_def Let_def)

lemma predict_success_files:
  assumes "filename file \<noteq> []"
    and "predict_food_body (st\<lparr>files := (files st)(path_join ''temp'' (filename file) \<mapsto> content file)\<rparr>)
           (path_join ''temp'' (filename file)) = Inr r"
  shows "files (snd (predict st (Some file))) = (files st)(path_join ''temp'' (filename file) := None)"
proof -
  let ?p = "path_join ''temp'' (filename file)"
  let ?st1 = "st\<lparr>files := (files st)(?p \<mapsto> content file)\<rparr>"
  obtain food_name nutr confidence where r: "r = (food_name, nutr, confidence)"
    by (cases r) auto
  let ?st3 = "?st1\<lparr>files := (files ?st1)(?p := None)\<rparr>"
  let ?q = "(karbohidrat nutr, protein nutr, lemak nutr)"
  have pf: "predict_food ?st1 ?p = (Inr (food_name, nutr, confidence), ?st1)"
    using assms(2) r by (simp add: predict_food_def)
  obtain res st4 where g: "get_food_recommendations ?st3 ?q = (res, st4)"
    by (cases "get_food_recommendations ?st3 ?q") auto
  have f4: "files st4 = files ?st3"
    using get_food_recommendations_files[of ?st3 ?q] g by simp
  have "snd (predict st (Some file)) = st4"
    using assms(1) pf g by (cases res) (simp_all add: predict_def Let_def)
  then show ?thesis using f4 by simp
qed

lemma temp_path: "path_join ''temp'' ''nasi.jpg'' = ''temp/nasi.jpg''"
  by (simp add: path_join_def)

text \<open>
  C9 at a failing input. An upload \<^verbatim>\<open>nasi.jpg\<close> whose bytes are no image: before the
  request there is no file \<^verbatim>\<open>temp/nasi.jpg\<close>, the request answers with status 500,
  and afterwards the file is still there. On the path where \<open>predict_food\<close> succeeds
  the same file is removed.
\<close>

theorem temp_file_left_after_failure:
  "files (started sample_catalog) ''temp/nasi.jpg'' = None \<and>
   fst (predict (started sample_catalog) (Some \<lparr>filename = ''nasi.jpg'', content = Not_An_Image\<rparr>)) =
     Server_Error UnidentifiedImageError \<and>
   files (snd (predict (started sample_catalog) (Some \<lparr>filename = ''nasi.jpg'', content = Not_An_Image\<rparr>)))
     ''temp/nasi.jpg'' = Some Not_An_Image \<and>
   files (snd (predict ((started sample_catalog)\<lparr>cnn_model := Some five_class_cnn\<rparr>)
                 (Some \<lparr>filename = ''nasi.jpg'', content = Image [1, 2, 3]\<rparr>)))
     ''temp/nasi.jpg'' = None"
proof -
  let ?bad = "\<lparr>filename = ''nasi.jpg'', content = Not_An_Image\<rparr>"
  let ?good = "\<lparr>filename = ''nasi.jpg'', content = Image [1, 2, 3]\<rparr>"
  let ?st = "started sample_catalog"
  let ?st' = "?st\<lparr>cnn_model := Some five_class_cnn\<rparr>"
  have "predict_food_body (?st\<lparr>files := (files ?st)(path_join ''temp'' (filename ?bad) \<mapsto> content ?bad)\<rparr>)
           (path_join ''temp'' (filename ?bad)) = Inl UnidentifiedImageError"
    by (simp add: predict_food_body_def)
  then have bad: "predict ?st (Some ?bad) =
           (Server_Error UnidentifiedImageError,
            ?st\<lparr>files := (files ?st)(path_join ''temp'' (filename ?bad) \<mapsto> content ?bad),
               stdout := stdout ?st @ [Error_In ''predict_food'' UnidentifiedImageError]\<rparr>)"
    by (intro predict_failure) simp_all
  have "\<exists>r. predict_food_body (?st'\<lparr>files := (files ?st')(path_join ''temp'' (filename ?good) \<mapsto> content ?good)\<rparr>)
           (path_join ''temp'' (filename ?good)) = Inr r"
    by (simp add: predict_food_body_def started_fields five_class_cnn_def sample_argmax sample_ne Let_def)
  then obtain r where "predict_food_body (?st'\<lparr>files := (files ?st')(path_join ''temp'' (filename ?good) \<mapsto> content ?good)\<rparr>)
           (path_join ''temp'' (filename ?good)) = Inr r" by blast
  then have good: "files (snd (predict ?st' (Some ?good))) = (files ?st')(path_join ''temp'' (filename ?good) := None)"
    by (intro predict_success_files) simp_all
  show ?thesis
    using bad good by (simp add: temp_path started_fields)
qed

subsection \<open>Lookup by name\<close>

lemma of_char_lower_char:
  "(of_char (lower_char c) :: nat) = (if is_upper c then of_char c + 32 else of_char c)"
  by (simp add: lower_char_def is_upper_def Let_def)

lemma lower_char_eq_iff: "lower_char c = lower_char d \<longleftrightarrow> same_letter c d"
proof -
  define n m where "n = (of_char c :: nat)" and "m = (of_char d :: nat)"
  have cd: "c = d \<longleftrightarrow> n = m" by (simp add: n_def m_def)
  have "lower_char c = lower_char d \<longleftrightarrow>
        (of_char (lower_char c) :: nat) = of_char (lower_char d)"
    by simp
  also have "\<dots> \<longleftrightarrow>
      (if 65 \<le> n \<and> n \<le> 90 then n + 32 else n) = (if 65 \<le> m \<and> m \<le> 90 then m + 32 else m)"
    by (simp only: of_char_lower_char is_upper_def n_def m_def)
  also have "\<dots> \<longleftrightarrow>
      (n = m \<or> ((65 \<le> n \<and> n \<le> 90) \<and> m = n + 32) \<or> ((65 \<le> m \<and> m \<le> 90) \<and> n = m + 32))"
    by (auto split: if_splits)
  also have "\<dots> \<longleftrightarrow> same_letter c d"
    by (simp only: same_letter_def is_upper_def cd n_def m_def)
  finally show ?thesis .
qed

lemma lower_eq_iff: "lower a = lower b \<longleftrightarrow> differ_only_in_case a b"
  unfolding lower_def differ_only_in_case_def
proof (induction a arbitrary: b)
  case Nil
  then show ?case by auto
next
  case (Cons c a)
  then show ?case by (cases b) (auto simp: lower_char_eq_iff)
qed

lemma sample_lower: "lower ''NASI Goreng'' = ''nasi goreng''"
  by code_simp

lemma find_food_None_iff:
  "find_food ds food_name = None \<longleftrightarrow> (\<forall>f\<in>set ds. lower (Nama_Makanan_Minuman f) \<noteq> food_name)"
  by (induction ds) auto

lemma find_food_Some_first:
  "find_food ds food_name = Some f \<Longrightarrow>
   \<exists>i<length ds. ds ! i = f \<and> lower (Nama_Makanan_Minuman f) = food_name
     \<and> (\<forall>j<i. lower (Nama_Makanan_Minuman (ds ! j)) \<noteq> food_name)"
proof (induction ds)
  case Nil
  then show ?case by simp
next
  case (Cons g ds)
  show ?case
  proof (cases "lower (Nama_Makanan_Minuman g) = food_name")
    case True
    then have "f = g" using Cons.prems by simp
    then show ?thesis using True by (intro exI[of _ 0]) simp
  next
    case False
    then have "find_food ds food_name = Some f" using Cons.prems by simp
    from Cons.IH[OF this] obtain i where
      i: "i < length ds" "ds ! i = f" "lower (Nama_Makanan_Minuman f) = food_name"
         "\<forall>j<i. lower (Nama_Makanan_Minuman (ds ! j)) \<noteq> food_name"
      by blast
    have "\<forall>j<Suc i. lower (Nama_Makanan_Minuman ((g # ds) ! j)) \<noteq> food_name"
      using False i(4) by (auto simp: less_Suc_eq_0_disj)
    then show ?thesis using i by (intro exI[of _ "Suc i"]) simp
  qed
qed

lemma sample_names_case:
  "differ_only_in_case ''NASI GORENG'' ''nasi goreng''"
  "\<forall>f\<in>set sample_catalog. \<not> differ_only_in_case (Nama_Makanan_Minuman f) ''Bakso''"
  by (simp_all add: differ_only_in_case_def same_letter_def is_upper_def sample_catalog_def)

text \<open>
  C7. With the catalog loaded, the lookup of \<open>recommend_by_name\<close> matches a record
  exactly when its name and the requested name differ only in letter case. Two requests
  whose names differ only in letter case get the same lookup result and the same
  response; a hit is the first matching record in catalog order; a match in the catalog
  is always found; and when no record matches, the lookup yields no record and the
  endpoint answers with the status 404 response, raising nothing and changing nothing.
\<close>

theorem find_by_name_case_insensitive:
  assumes "dataset st = Some ds"
  shows "(differ_only_in_case a b \<longrightarrow>
            find_food ds (lower a) = find_food ds (lower b) \<and>
            recommend_by_name st (Some a) = recommend_by_name st (Some b)) \<and>
         (\<forall>f. find_food ds (lower name) = Some f \<longrightarrow>
            (\<exists>i<length ds. ds ! i = f \<and> differ_only_in_case (Nama_Makanan_Minuman f) name
               \<and> (\<forall>j<i. \<not> differ_only_in_case (Nama_Makanan_Minuman (ds ! j)) name))) \<and>
         ((\<exists>f\<in>set ds. differ_only_in_case (Nama_Makanan_Minuman f) name) \<longrightarrow>
            find_food ds (lower name) \<noteq> None) \<and>
         ((\<forall>f\<in>set ds. \<not> differ_only_in_case (Nama_Makanan_Minuman f) name) \<longrightarrow>
            find_food ds (lower name) = None \<and>
            recommend_by_name st (Some name) = (Not_Found ''Food not found in database'', st))"
proof (intro conjI impI allI)
  assume "differ_only_in_case a b"
  then have ab: "lower a = lower b" by (simp add: lower_eq_iff)
  show "find_food ds (lower a) = find_food ds (lower b)" by (simp add: ab)
  show "recommend_by_name st (Some a) = recommend_by_name st (Some b)"
    by (simp add: recommend_by_name_def ab)
next
  fix f assume "find_food ds (lower name) = Some f"
  from find_food_Some_first[OF this]
  show "\<exists>i<length ds. ds ! i = f \<and> differ_only_in_case (Nama_Makanan_Minuman f) name
               \<and> (\<forall>j<i. \<not> differ_only_in_case (Nama_Makanan_Minuman (ds ! j)) name)"
    by (simp add: lower_eq_iff)
next
  assume "\<exists>f\<in>set ds. differ_only_in_case (Nama_Makanan_Minuman f) name"
  then show "find_food ds (lower name) \<noteq> None"
    by (simp add: find_food_None_iff lower_eq_iff)
next
  assume "\<forall>f\<in>set ds. \<not> differ_only_in_case (Nama_Makanan_Minuman f) name"
  then show n: "find_food ds (lower name) = None"
    by (simp add: find_food_None_iff lower_eq_iff)
  then show "recommend_by_name st (Some name) = (Not_Found ''Food not found in database'', st)"
    using assms by (simp add: recommend_by_name_def)
qed

text \<open>Instance: two spellings of a name of the sample catalog, and a name that is absent.\<close>

theorem find_by_name_case_insensitive_witness:
  "find_food sample_catalog (lower ''NASI GORENG'') = find_food sample_catalog (lower ''nasi goreng'') \<and>
   recommend_by_name (started sample_catalog) (Some ''NASI GORENG'') =
     recommend_by_name (started sample_catalog) (Some ''nasi goreng'') \<and>
   find_food sample_catalog (lower ''Bakso'') = None \<and>
   recommend_by_name (started sample_catalog) (Some ''Bakso'') =
     (Not_Found ''Food not found in database'', started sample_catalog)"
  using find_by_name_case_insensitive[OF started_fields(2), of "''NASI GORENG''" "''nasi goreng''"
      sample_catalog "''Bakso''"] sample_names_case
  by blast

end
